theory Spec2Isabelle
  imports Main "HOL-Library.Word"
begin

section \<open>Strings of the platform\<close>

text \<open>
  A JavaScript string is a sequence of 16-bit code units. Identifiers of ramos, class
  names, the \<open>data-requisitos\<close> attribute and the text kept in \<open>localStorage\<close> are all
  such strings. \<open>js\<close> writes an ASCII literal as code units.
\<close>

type_synonym unidad = "16 word"
type_synonym jsstring = "unidad list"

definition js :: "string \<Rightarrow> jsstring" where
  "js s = map (\<lambda>c. of_nat (of_char c)) s"

text \<open>\<open>String.prototype.split\<close> with a one-unit separator: never an empty list.\<close>

fun js_split :: "unidad \<Rightarrow> jsstring \<Rightarrow> jsstring list" where
  "js_split sep [] = [[]]"
| "js_split sep (c # cs) =
     (if c = sep then [] # js_split sep cs
      else (case js_split sep cs of
              [] \<Rightarrow> [[c]]
            | w # ws \<Rightarrow> (c # w) # ws))"

text \<open>\<open>Array.prototype.join\<close> on an array of strings.\<close>

fun js_join :: "jsstring \<Rightarrow> jsstring list \<Rightarrow> jsstring" where
  "js_join sep [] = []"
| "js_join sep [x] = x"
| "js_join sep (x # y # ys) = x @ sep @ js_join sep (y # ys)"

text \<open>\<open>String.prototype.includes\<close>: the needle occurs somewhere in the text.\<close>

fun empieza_con :: "jsstring \<Rightarrow> jsstring \<Rightarrow> bool" where
  "empieza_con [] t = True"
| "empieza_con (x # xs) [] = False"
| "empieza_con (x # xs) (y # ys) = (x = y \<and> empieza_con xs ys)"

fun String_includes :: "jsstring \<Rightarrow> jsstring \<Rightarrow> bool" where
  "String_includes [] x = (x = [])"
| "String_includes (c # cs) x = (empieza_con x (c # cs) \<or> String_includes cs x)"

section \<open>JSON\<close>

text \<open>
  The values \<open>JSON.parse\<close> can return. A number is kept as the literal it was read
  from and an object as its members in the order of the text: the program tests
  membership of strings in an array and never looks into either.
\<close>

datatype json =
    JNull
  | JBool bool
  | JNum jsstring
  | JStr jsstring
  | JArr "json list"
  | JObj "(jsstring \<times> json) list"

datatype error = SyntaxError | TypeError

subsection \<open>\<open>JSON.stringify\<close>\<close>

definition hexdigito :: "nat \<Rightarrow> unidad" where
  "hexdigito n = js ''0123456789abcdef'' ! n"

definition UnicodeEscape :: "unidad \<Rightarrow> jsstring" where
  "UnicodeEscape c =
     [0x5C, 0x75,
      hexdigito (unat c div 4096 mod 16), hexdigito (unat c div 256 mod 16),
      hexdigito (unat c div 16 mod 16), hexdigito (unat c mod 16)]"

definition subrogado_alto :: "unidad \<Rightarrow> bool" where
  "subrogado_alto c = (0xD800 \<le> c \<and> c \<le> 0xDBFF)"

definition subrogado_bajo :: "unidad \<Rightarrow> bool" where
  "subrogado_bajo c = (0xDC00 \<le> c \<and> c \<le> 0xDFFF)"

text \<open>
  One code point of \<open>QuoteJSONString\<close> that is a single code unit: the short escapes,
  \<open>\u\<close> escapes for the other control characters and for a surrogate without its
  partner, the unit itself otherwise.
\<close>

definition escapar :: "unidad \<Rightarrow> jsstring" where
  "escapar c =
     (if c = 0x08 then [0x5C, 0x62]
      else if c = 0x09 then [0x5C, 0x74]
      else if c = 0x0A then [0x5C, 0x6E]
      else if c = 0x0C then [0x5C, 0x66]
      else if c = 0x0D then [0x5C, 0x72]
      else if c = 0x22 then [0x5C, 0x22]
      else if c = 0x5C then [0x5C, 0x5C]
      else if c < 0x20 \<or> subrogado_alto c \<or> subrogado_bajo c then UnicodeEscape c
      else [c])"

fun citar :: "jsstring \<Rightarrow> jsstring" where
  "citar [] = []"
| "citar [c] = escapar c"
| "citar (c # d # cs) =
     (if subrogado_alto c \<and> subrogado_bajo d then c # d # citar cs
      else escapar c @ citar (d # cs))"

definition QuoteJSONString :: "jsstring \<Rightarrow> jsstring" where
  "QuoteJSONString s = 0x22 # citar s @ [0x22]"

text \<open>
  The text of a value, without white space. A list of strings, which is all the program
  ever builds, is written exactly as \<open>JSON.stringify\<close> writes it. A number and an
  object are written as they were read, where \<open>JSON.stringify\<close> prints the shortest
  form of the number and the properties in their own order; no statement below is
  about the text of either.
\<close>

fun JSON_stringify :: "json \<Rightarrow> jsstring" where
  "JSON_stringify JNull = js ''null''"
| "JSON_stringify (JBool b) = (if b then js ''true'' else js ''false'')"
| "JSON_stringify (JNum n) = n"
| "JSON_stringify (JStr s) = QuoteJSONString s"
| "JSON_stringify (JArr vs) = 0x5B # js_join [0x2C] (map JSON_stringify vs) @ [0x5D]"
| "JSON_stringify (JObj ms) =
     0x7B # js_join [0x2C]
       (map (\<lambda>m. QuoteJSONString (fst m) @ 0x3A # JSON_stringify (snd m)) ms) @ [0x7D]"

subsection \<open>\<open>JSON.parse\<close>\<close>

text \<open>
  The parser reads the text one code unit at a time. It keeps the containers that are
  still open and what the grammar allows next.
\<close>

datatype marco =
    MArr "json list"
  | MObj "(jsstring \<times> json) list"
  | MObjK "(jsstring \<times> json) list" jsstring

datatype numero =
    NMenos | NCero | NEntero | NPunto | NFraccion | NExp | NExpSigno | NExpDigitos

datatype modo =
    Valor
  | ValorOCierre
  | ClaveOCierre
  | Clave
  | DosPuntos jsstring
  | Separador
  | Fin json
  | Cadena bool jsstring
  | Escape bool jsstring
  | Unicode bool jsstring nat nat
  | Literal jsstring json
  | Numero numero jsstring

type_synonym analizador = "marco list \<times> modo"

definition espacio :: "unidad \<Rightarrow> bool" where
  "espacio c = (c = 0x20 \<or> c = 0x09 \<or> c = 0x0A \<or> c = 0x0D)"

definition digito :: "unidad \<Rightarrow> bool" where
  "digito c = (0x30 \<le> c \<and> c \<le> 0x39)"

definition valor_hex :: "unidad \<Rightarrow> nat option" where
  "valor_hex c =
     (if 0x30 \<le> c \<and> c \<le> 0x39 then Some (unat c - 0x30)
      else if 0x61 \<le> c \<and> c \<le> 0x66 then Some (unat c - 0x61 + 10)
      else if 0x41 \<le> c \<and> c \<le> 0x46 then Some (unat c - 0x41 + 10)
      else None)"

text \<open>A finished value goes into the innermost open container, or is the result.\<close>

fun entregar :: "json \<Rightarrow> marco list \<Rightarrow> analizador option" where
  "entregar v [] = Some ([], Fin v)"
| "entregar v (MArr es # p) = Some (MArr (es @ [v]) # p, Separador)"
| "entregar v (MObjK ms k # p) = Some (MObj (ms @ [(k, v)]) # p, Separador)"
| "entregar v (MObj ms # p) = None"

definition abrir_valor :: "marco list \<Rightarrow> unidad \<Rightarrow> analizador option" where
  "abrir_valor p c =
     (if c = 0x5B then Some (MArr [] # p, ValorOCierre)
      else if c = 0x7B then Some (MObj [] # p, ClaveOCierre)
      else if c = 0x22 then Some (p, Cadena False [])
      else if c = 0x2D then Some (p, Numero NMenos [c])
      else if c = 0x30 then Some (p, Numero NCero [c])
      else if digito c then Some (p, Numero NEntero [c])
      else if c = 0x74 then Some (p, Literal (js ''rue'') (JBool True))
      else if c = 0x66 then Some (p, Literal (js ''alse'') (JBool False))
      else if c = 0x6E then Some (p, Literal (js ''ull'') JNull)
      else None)"

fun cerrar :: "marco list \<Rightarrow> unidad \<Rightarrow> analizador option" where
  "cerrar (MArr es # p) c = (if c = 0x5D then entregar (JArr es) p else None)"
| "cerrar (MObj ms # p) c = (if c = 0x7D then entregar (JObj ms) p else None)"
| "cerrar p c = None"

fun separar :: "marco list \<Rightarrow> unidad \<Rightarrow> analizador option" where
  "separar (MArr es # p) c =
     (if c = 0x2C then Some (MArr es # p, Valor) else cerrar (MArr es # p) c)"
| "separar (MObj ms # p) c =
     (if c = 0x2C then Some (MObj ms # p, Clave) else cerrar (MObj ms # p) c)"
| "separar p c = None"

text \<open>The next state of a number, or \<open>None\<close> when the unit does not continue it.\<close>

fun seguir_numero :: "numero \<Rightarrow> unidad \<Rightarrow> numero option" where
  "seguir_numero NMenos c =
     (if c = 0x30 then Some NCero else if digito c then Some NEntero else None)"
| "seguir_numero NCero c =
     (if c = 0x2E then Some NPunto else if c = 0x65 \<or> c = 0x45 then Some NExp else None)"
| "seguir_numero NEntero c =
     (if digito c then Some NEntero else if c = 0x2E then Some NPunto
      else if c = 0x65 \<or> c = 0x45 then Some NExp else None)"
| "seguir_numero NPunto c = (if digito c then Some NFraccion else None)"
| "seguir_numero NFraccion c =
     (if digito c then Some NFraccion else if c = 0x65 \<or> c = 0x45 then Some NExp else None)"
| "seguir_numero NExp c =
     (if c = 0x2B \<or> c = 0x2D then Some NExpSigno
      else if digito c then Some NExpDigitos else None)"
| "seguir_numero NExpSigno c = (if digito c then Some NExpDigitos else None)"
| "seguir_numero NExpDigitos c = (if digito c then Some NExpDigitos else None)"

fun numero_completo :: "numero \<Rightarrow> bool" where
  "numero_completo NCero = True"
| "numero_completo NEntero = True"
| "numero_completo NFraccion = True"
| "numero_completo NExpDigitos = True"
| "numero_completo n = False"

text \<open>One step outside a number.\<close>

fun paso_simple :: "marco list \<Rightarrow> modo \<Rightarrow> unidad \<Rightarrow> analizador option" where
  "paso_simple p Valor c = (if espacio c then Some (p, Valor) else abrir_valor p c)"
| "paso_simple p ValorOCierre c =
     (if espacio c then Some (p, ValorOCierre)
      else if c = 0x5D then cerrar p c else abrir_valor p c)"
| "paso_simple p ClaveOCierre c =
     (if espacio c then Some (p, ClaveOCierre)
      else if c = 0x7D then cerrar p c
      else if c = 0x22 then Some (p, Cadena True []) else None)"
| "paso_simple p Clave c =
     (if espacio c then Some (p, Clave)
      else if c = 0x22 then Some (p, Cadena True []) else None)"
| "paso_simple p (DosPuntos k) c =
     (if espacio c then Some (p, DosPuntos k)
      else if c = 0x3A then
        (case p of MObj ms # q \<Rightarrow> Some (MObjK ms k # q, Valor) | _ \<Rightarrow> None)
      else None)"
| "paso_simple p Separador c = (if espacio c then Some (p, Separador) else separar p c)"
| "paso_simple p (Fin v) c = (if espacio c then Some (p, Fin v) else None)"
| "paso_simple p (Cadena clave acc) c =
     (if c = 0x22 then (if clave then Some (p, DosPuntos acc) else entregar (JStr acc) p)
      else if c = 0x5C then Some (p, Escape clave acc)
      else if c < 0x20 then None
      else Some (p, Cadena clave (acc @ [c])))"
| "paso_simple p (Escape clave acc) c =
     (if c = 0x22 \<or> c = 0x5C \<or> c = 0x2F then Some (p, Cadena clave (acc @ [c]))
      else if c = 0x62 then Some (p, Cadena clave (acc @ [0x08]))
      else if c = 0x66 then Some (p, Cadena clave (acc @ [0x0C]))
      else if c = 0x6E then Some (p, Cadena clave (acc @ [0x0A]))
      else if c = 0x72 then Some (p, Cadena clave (acc @ [0x0D]))
      else if c = 0x74 then Some (p, Cadena clave (acc @ [0x09]))
      else if c = 0x75 then Some (p, Unicode clave acc 0 0)
      else None)"
| "paso_simple p (Unicode clave acc n v) c =
     (case valor_hex c of
        None \<Rightarrow> None
      | Some d \<Rightarrow>
          (if n = 3 then Some (p, Cadena clave (acc @ [of_nat (v * 16 + d)]))
           else Some (p, Unicode clave acc (Suc n) (v * 16 + d))))"
| "paso_simple p (Literal resto v) c =
     (case resto of
        [] \<Rightarrow> None
      | x # xs \<Rightarrow>
          (if c \<noteq> x then None
           else if xs = [] then entregar v p else Some (p, Literal xs v)))"
| "paso_simple p (Numero n lit) c = None"

text \<open>
  One step. A number has no closing unit: it ends at the first unit that cannot
  continue it, and that unit is then read in the state after the number.
\<close>

fun paso :: "analizador \<Rightarrow> unidad \<Rightarrow> analizador option" where
  "paso (p, Numero n lit) c =
     (case seguir_numero n c of
        Some n' \<Rightarrow> Some (p, Numero n' (lit @ [c]))
      | None \<Rightarrow>
          (if numero_completo n then
             (case entregar (JNum lit) p of
                None \<Rightarrow> None
              | Some (q, m) \<Rightarrow> paso_simple q m c)
           else None))"
| "paso (p, m) c = paso_simple p m c"

fun final :: "analizador \<Rightarrow> error + json" where
  "final ([], Fin v) = Inr v"
| "final ([], Numero n lit) = (if numero_completo n then Inr (JNum lit) else Inl SyntaxError)"
| "final a = Inl SyntaxError"

fun analizar :: "analizador \<Rightarrow> jsstring \<Rightarrow> error + json" where
  "analizar a [] = final a"
| "analizar a (c # cs) =
     (case paso a c of None \<Rightarrow> Inl SyntaxError | Some a' \<Rightarrow> analizar a' cs)"

definition JSON_parse :: "jsstring \<Rightarrow> error + json" where
  "JSON_parse texto = analizar ([], Valor) texto"

section \<open>Arrays and values at run time\<close>

text \<open>
  \<open>aprobados.includes(x)\<close> on whatever \<open>JSON.parse\<close> returned, for a string \<open>x\<close>:
  membership in an array, the substring test on a string, and a \<open>TypeError\<close> on any
  other value, which has no method \<open>includes\<close>.
\<close>

fun js_includes :: "json \<Rightarrow> jsstring \<Rightarrow> error + bool" where
  "js_includes (JArr vs) x = Inr (JStr x \<in> set vs)"
| "js_includes (JStr t) x = Inr (String_includes t x)"
| "js_includes v x = Inl TypeError"

text \<open>\<open>Array.prototype.every\<close>, \<open>filter\<close> and \<open>forEach\<close> with a callback that may throw.\<close>

fun every :: "('a \<Rightarrow> error + bool) \<Rightarrow> 'a list \<Rightarrow> error + bool" where
  "every f [] = Inr True"
| "every f (x # xs) =
     (case f x of
        Inl e \<Rightarrow> Inl e
      | Inr b \<Rightarrow> (if b then every f xs else Inr False))"

fun filter_js :: "('a \<Rightarrow> error + bool) \<Rightarrow> 'a list \<Rightarrow> error + 'a list" where
  "filter_js f [] = Inr []"
| "filter_js f (x # xs) =
     (case f x of
        Inl e \<Rightarrow> Inl e
      | Inr b \<Rightarrow>
          (case filter_js f xs of
             Inl e \<Rightarrow> Inl e
           | Inr ys \<Rightarrow> Inr (if b then x # ys else ys)))"

fun forEach :: "('a \<Rightarrow> error option \<times> 'a) \<Rightarrow> 'a list \<Rightarrow> error option \<times> 'a list" where
  "forEach f [] = (None, [])"
| "forEach f (x # xs) =
     (case f x of
        (Some e, x') \<Rightarrow> (Some e, x' # xs)
      | (None, x') \<Rightarrow> (case forEach f xs of (r, xs') \<Rightarrow> (r, x' # xs')))"

text \<open>\<open>classList.add\<close> and \<open>classList.remove\<close> on the ordered set of class names.\<close>

definition classList_add :: "jsstring \<Rightarrow> jsstring list \<Rightarrow> jsstring list" where
  "classList_add c cl = (if c \<in> set cl then cl else cl @ [c])"

definition classList_remove :: "jsstring \<Rightarrow> jsstring list \<Rightarrow> jsstring list" where
  "classList_remove c cl = filter (\<lambda>x. x \<noteq> c) cl"

section \<open>The page and its storage\<close>

text \<open>
  A ramo is an element of class \<open>ramo\<close>: its \<open>id\<close>, its attribute \<open>data-requisitos\<close>
  (\<open>None\<close> when the element has none, so that \<open>dataset.requisitos\<close> is undefined) and
  its classes. The page is the list \<open>ramos\<close> in document order, the text of the element
  that \<open>document.getElementById\<close> finds for an identifier, \<open>localStorage\<close>, and the
  messages shown by \<open>alert\<close>, oldest first.
\<close>

record ramo =
  ramoId :: jsstring
  dataset_requisitos :: "jsstring option"
  classList :: "jsstring list"

record pagina =
  ramos :: "ramo list"
  getElementById :: "jsstring \<Rightarrow> jsstring option"
  localStorage :: "jsstring \<rightharpoonup> jsstring"
  alertas :: "jsstring list"

definition LOCAL_STORAGE_KEY :: jsstring where
  "LOCAL_STORAGE_KEY = js ''ramosAprobados''"

definition aprobado :: jsstring where
  "aprobado = js ''aprobado''"

definition bloqueado :: jsstring where
  "bloqueado = js ''bloqueado''"

text \<open>
  \<open>cargarRamosAprobados\<close>: the stored text is parsed unless it is missing or empty.
  Whatever \<open>JSON.parse\<close> returns is returned, and its \<open>SyntaxError\<close> is not caught.
\<close>

definition cargarRamosAprobados :: "pagina \<Rightarrow> error + json" where
  "cargarRamosAprobados s =
     (case localStorage s LOCAL_STORAGE_KEY of
        None \<Rightarrow> Inr (JArr [])
      | Some ramosGuardados \<Rightarrow>
          (if ramosGuardados \<noteq> [] then JSON_parse ramosGuardados else Inr (JArr [])))"

text \<open>
  \<open>guardarRamosAprobados\<close>: the text of the list replaces what was stored under the key.
  A storage that refuses the write (a full quota) is not modelled.
\<close>

definition guardarRamosAprobados :: "json \<Rightarrow> pagina \<Rightarrow> pagina" where
  "guardarRamosAprobados aprobados s =
     s\<lparr>localStorage := (localStorage s)(LOCAL_STORAGE_KEY \<mapsto> JSON_stringify aprobados)\<rparr>"

text \<open>The list \<open>requisitos\<close> of \<open>actualizarEstadoVisual\<close> (line 37).\<close>

definition lista_requisitos :: "ramo \<Rightarrow> jsstring list" where
  "lista_requisitos ramo =
     (case dataset_requisitos ramo of
        None \<Rightarrow> []
      | Some a \<Rightarrow> (if a \<noteq> [] then js_split 0x2C a else []))"

text \<open>
  The body of the \<open>forEach\<close> of \<open>actualizarEstadoVisual\<close> on one ramo (lines 36 to 62).
  An exception leaves the classes as they are when it is thrown.
\<close>

definition actualizarRamo :: "json \<Rightarrow> ramo \<Rightarrow> error option \<times> ramo" where
  "actualizarRamo aprobados ramo =
     (let requisitos = lista_requisitos ramo in
      case js_includes aprobados (ramoId ramo) of
        Inl e \<Rightarrow> (Some e, ramo)
      | Inr True \<Rightarrow>
          (None, ramo\<lparr>classList :=
                   classList_remove bloqueado (classList_add aprobado (classList ramo))\<rparr>)
      | Inr False \<Rightarrow>
          (let ramo1 = ramo\<lparr>classList := classList_remove aprobado (classList ramo)\<rparr> in
           if 0 < length requisitos then
             (case every (js_includes aprobados) requisitos of
                Inl e \<Rightarrow> (Some e, ramo1)
              | Inr requisitosCumplidos \<Rightarrow>
                  (if \<not> requisitosCumplidos then
                     (None, ramo1\<lparr>classList := classList_add bloqueado (classList ramo1)\<rparr>)
                   else
                     (None, ramo1\<lparr>classList := classList_remove bloqueado (classList ramo1)\<rparr>)))
           else (None, ramo1\<lparr>classList := classList_remove bloqueado (classList ramo1)\<rparr>)))"

definition actualizarEstadoVisual :: "pagina \<Rightarrow> error option \<times> pagina" where
  "actualizarEstadoVisual s =
     (case cargarRamosAprobados s of
        Inl e \<Rightarrow> (Some e, s)
      | Inr aprobados \<Rightarrow>
          (case forEach (actualizarRamo aprobados) (ramos s) of
             (r, rs) \<Rightarrow> (r, s\<lparr>ramos := rs\<rparr>)))"

text \<open>The text of the alert (line 89).\<close>

definition mensaje :: "jsstring list \<Rightarrow> jsstring" where
  "mensaje nombresFaltantes =
     js ''No puedes aprobar este ramo. '' @ [0x0A] @ js ''Requisitos pendientes: '' @ [0x0A]
     @ js ''- '' @ js_join (0x0A # js ''- '') nombresFaltantes"

text \<open>
  \<open>manejarClicRamo\<close> for a click on the ramo at position \<open>i\<close> of \<open>ramos\<close>; the listener
  is attached to those elements only, so any other position runs nothing. The result
  is the exception that leaves the handler, if any, and the page as it then is.
\<close>

definition manejarClicRamo :: "nat \<Rightarrow> pagina \<Rightarrow> error option \<times> pagina" where
  "manejarClicRamo i s =
     (if length (ramos s) \<le> i then (None, s)
      else
        let ramo = ramos s ! i in
        if bloqueado \<in> set (classList ramo) then
          (case dataset_requisitos ramo of
             None \<Rightarrow> (Some TypeError, s)
           | Some a \<Rightarrow>
               (let requisitos = js_split 0x2C a in
                case cargarRamosAprobados s of
                  Inl e \<Rightarrow> (Some e, s)
                | Inr aprobados \<Rightarrow>
                    (case filter_js (\<lambda>reqId. map_sum id Not (js_includes aprobados reqId)) requisitos of
                       Inl e \<Rightarrow> (Some e, s)
                     | Inr faltantes \<Rightarrow>
                         (let nombresFaltantes =
                                map (\<lambda>reqId. case getElementById s reqId of
                                                None \<Rightarrow> reqId
                                              | Some textContent \<Rightarrow> textContent) faltantes
                          in (None, s\<lparr>alertas := alertas s @ [mensaje nombresFaltantes]\<rparr>)))))
        else
          (case cargarRamosAprobados s of
             Inl e \<Rightarrow> (Some e, s)
           | Inr aprobados \<Rightarrow>
               (case js_includes aprobados (ramoId ramo) of
                  Inl e \<Rightarrow> (Some e, s)
                | Inr esta \<Rightarrow>
                    (case aprobados of
                       JArr vs \<Rightarrow>
                         actualizarEstadoVisual
                           (guardarRamosAprobados
                              (JArr (if esta then filter (\<lambda>v. v \<noteq> JStr (ramoId ramo)) vs
                                     else vs @ [JStr (ramoId ramo)])) s)
                     | _ \<Rightarrow> (Some TypeError, s)))))"

text \<open>A sequence of clicks; an exception ends one handler, not the page.\<close>

fun clics :: "nat list \<Rightarrow> pagina \<Rightarrow> pagina" where
  "clics [] s = s"
| "clics (i # is) s = clics is (snd (manejarClicRamo i s))"

section \<open>Statuses\<close>

text \<open>
  The three statuses the page shows (\<open>aprobado\<close>, \<open>bloqueado\<close>, normal): a ramo of class
  \<open>bloqueado\<close> is locked, which is what the click handler tests; otherwise one of class
  \<open>aprobado\<close> is completed; any other is available.
\<close>

datatype status = Completed | Locked | Available

definition estado :: "ramo \<Rightarrow> status" where
  "estado ramo =
     (if bloqueado \<in> set (classList ramo) then Locked
      else if aprobado \<in> set (classList ramo) then Completed
      else Available)"

text \<open>
  The page shows the statuses of the stored list: \<open>actualizarEstadoVisual\<close> succeeds and
  changes nothing. The click handler tests the class \<open>bloqueado\<close> as the last call of
  \<open>actualizarEstadoVisual\<close> left it, and the program calls it at start and at the end of
  every click that stores a list, so this is the state of the page at every click
  (lemma \<open>siempre_mostrada\<close>).
\<close>

definition mostrada :: "pagina \<Rightarrow> bool" where
  "mostrada s = (actualizarEstadoVisual s = (None, s))"

section \<open>Example pages\<close>

text \<open>
  The catalogue of three ramos \<open>A\<close>, \<open>B\<close> (requires \<open>A\<close>) and \<open>C\<close> (requires \<open>A\<close> and
  \<open>B\<close>); \<open>getElementById\<close> finds each of them, with its name as text, and nothing
  else. \<open>pagina_inicial\<close> is the page with nothing stored, \<open>pagina_ejemplo\<close> the page
  with \<open>["A"]\<close> stored, both as \<open>actualizarEstadoVisual\<close> leaves them.
\<close>

definition pagina_inicial :: pagina where
  "pagina_inicial =
     \<lparr>ramos =
        [\<lparr>ramoId = js ''A'', dataset_requisitos = None, classList = [js ''ramo'']\<rparr>,
         \<lparr>ramoId = js ''B'', dataset_requisitos = Some (js ''A''),
          classList = [js ''ramo'', bloqueado]\<rparr>,
         \<lparr>ramoId = js ''C'', dataset_requisitos = Some (js ''A,B''),
          classList = [js ''ramo'', bloqueado]\<rparr>],
      getElementById =
        [js ''A'' \<mapsto> js ''Algebra'', js ''B'' \<mapsto> js ''Biologia'', js ''C'' \<mapsto> js ''Calculo''],
      localStorage = Map.empty,
      alertas = []\<rparr>"

definition pagina_ejemplo :: pagina where
  \<open>pagina_ejemplo =
     \<lparr>ramos =
        [\<lparr>ramoId = js ''A'', dataset_requisitos = None, classList = [js ''ramo'', aprobado]\<rparr>,
         \<lparr>ramoId = js ''B'', dataset_requisitos = Some (js ''A''), classList = [js ''ramo'']\<rparr>,
         \<lparr>ramoId = js ''C'', dataset_requisitos = Some (js ''A,B''),
          classList = [js ''ramo'', bloqueado]\<rparr>],
      getElementById =
        [js ''A'' \<mapsto> js ''Algebra'', js ''B'' \<mapsto> js ''Biologia'', js ''C'' \<mapsto> js ''Calculo''],
      localStorage = [LOCAL_STORAGE_KEY \<mapsto> js ''["A"]''],
      alertas = []\<rparr>\<close>

text \<open>A page whose stored text is not JSON.\<close>

definition pagina_corrupta :: pagina where
  "pagina_corrupta =
     \<lparr>ramos = [\<lparr>ramoId = js ''A'', dataset_requisitos = None, classList = [js ''ramo'']\<rparr>],
      getElementById = [js ''A'' \<mapsto> js ''Algebra''],
      localStorage = [LOCAL_STORAGE_KEY \<mapsto> js ''{''],
      alertas = []\<rparr>"

text \<open>
  A page whose only ramo \<open>X\<close> requires \<open>Z\<close>, which no ramo is called and no element
  of the page has as its id, with nothing stored, and the same page with \<open>["X"]\<close>
  stored.
\<close>

definition pagina_huerfana :: pagina where
  "pagina_huerfana =
     \<lparr>ramos =
        [\<lparr>ramoId = js ''X'', dataset_requisitos = Some (js ''Z''),
          classList = [js ''ramo'', bloqueado]\<rparr>],
      getElementById = [js ''X'' \<mapsto> js ''Xilografia''],
      localStorage = Map.empty,
      alertas = []\<rparr>"

definition pagina_huerfana_aprobada :: pagina where
  \<open>pagina_huerfana_aprobada =
     \<lparr>ramos =
        [\<lparr>ramoId = js ''X'', dataset_requisitos = Some (js ''Z''),
          classList = [js ''ramo'', aprobado]\<rparr>],
      getElementById = [js ''X'' \<mapsto> js ''Xilografia''],
      localStorage = [LOCAL_STORAGE_KEY \<mapsto> js ''["X"]''],
      alertas = []\<rparr>\<close>

section \<open>\<open>JSON.parse\<close> reads back what \<open>JSON.stringify\<close> writes for a list of strings\<close>

lemma valor_hex_digitos: "list_all (\<lambda>n. valor_hex (hexdigito n) = Some n) [0..<16]"
  by code_simp

lemma valor_hex_hexdigito: "n < 16 \<Longrightarrow> valor_hex (hexdigito n) = Some n"
  using valor_hex_digitos by (simp add: list_all_iff)

lemma cuatro_digitos_nat:
  assumes "m < 65536"
  shows "((m div 4096 mod 16 * 16 + m div 256 mod 16) * 16 + m div 16 mod 16) * 16 + m mod 16
           = (m :: nat)"
proof -
  have a: "m div 4096 mod 16 = m div 4096"
    using assms by simp
  have b: "m div 4096 = m div 256 div 16" and c: "m div 256 = m div 16 div 16"
    by (simp_all add: div_mult2_eq)
  have d: "\<And>k::nat. k div 16 * 16 + k mod 16 = k"
    by simp
  have "m div 4096 mod 16 * 16 + m div 256 mod 16 = m div 256"
    using a b d [of "m div 256"] by simp
  moreover have "m div 256 * 16 + m div 16 mod 16 = m div 16"
    using c d [of "m div 16"] by simp
  ultimately show ?thesis
    using d [of m] by simp
qed

lemma cuatro_digitos:
  "of_nat (((unat c div 4096 mod 16 * 16 + unat c div 256 mod 16) * 16
            + unat c div 16 mod 16) * 16 + unat c mod 16) = (c :: unidad)"
proof -
  have "unat c < 65536"
    using unsigned_less [of c] by simp
  then show ?thesis
    by (simp only: cuatro_digitos_nat) simp
qed


lemma analizar_UnicodeEscape:
  "analizar (p, Cadena k acc) (UnicodeEscape c @ resto) = analizar (p, Cadena k (acc @ [c])) resto"
  using cuatro_digitos [of c] by (simp add: UnicodeEscape_def valor_hex_hexdigito)

lemma analizar_escapar:
  "analizar (p, Cadena k acc) (escapar c @ resto) = analizar (p, Cadena k (acc @ [c])) resto"
proof (cases "c = 0x08 \<or> c = 0x09 \<or> c = 0x0A \<or> c = 0x0C \<or> c = 0x0D \<or> c = 0x22 \<or> c = 0x5C")
  case True
  then show ?thesis
    by (elim disjE) (simp_all add: escapar_def)
next
  case corriente: False
  show ?thesis
  proof (cases "c < 0x20 \<or> subrogado_alto c \<or> subrogado_bajo c")
    case True
    with corriente have "escapar c = UnicodeEscape c"
      by (simp add: escapar_def)
    then show ?thesis
      by (simp add: analizar_UnicodeEscape)
  next
    case False
    with corriente have "escapar c = [c]"
      by (simp add: escapar_def)
    with corriente False show ?thesis
      by simp
  qed
qed

lemma subrogado_crudo:
  assumes "subrogado_alto c \<or> subrogado_bajo c"
  shows "c \<noteq> 0x22" and "c \<noteq> 0x5C" and "\<not> c < 0x20"
proof -
  have "0xD800 \<le> unat c"
    using assms by (auto simp: subrogado_alto_def subrogado_bajo_def word_le_nat_alt)
  then show "c \<noteq> 0x22" and "c \<noteq> 0x5C" and "\<not> c < 0x20"
    by (auto simp: word_less_nat_alt)
qed

lemma analizar_crudo:
  assumes "c \<noteq> 0x22" and "c \<noteq> 0x5C" and "\<not> c < 0x20"
  shows "analizar (p, Cadena k acc) (c # resto) = analizar (p, Cadena k (acc @ [c])) resto"
  using assms by simp

lemma analizar_citar:
  "analizar (p, Cadena k acc) (citar s @ resto) = analizar (p, Cadena k (acc @ s)) resto"
proof (induction s arbitrary: acc rule: citar.induct)
  case 1
  show ?case by simp
next
  case (2 c)
  show ?case by (simp add: analizar_escapar)
next
  case (3 c d cs)
  show ?case
  proof (cases "subrogado_alto c \<and> subrogado_bajo d")
    case True
    then have "citar (c # d # cs) @ resto = c # d # citar cs @ resto"
      by simp
    moreover have "analizar (p, Cadena k acc) (c # d # citar cs @ resto)
                     = analizar (p, Cadena k ((acc @ [c]) @ [d])) (citar cs @ resto)"
    proof -
      have c: "c \<noteq> 0x22" "c \<noteq> 0x5C" "\<not> c < 0x20"
        using True subrogado_crudo [of c] by blast+
      have d: "d \<noteq> 0x22" "d \<noteq> 0x5C" "\<not> d < 0x20"
        using True subrogado_crudo [of d] by blast+
      show ?thesis
        by (simp only: analizar_crudo [OF c] analizar_crudo [OF d])
    qed
    ultimately show ?thesis
      using True "3.IH"(1) [of "(acc @ [c]) @ [d]"] by simp
  next
    case False
    then have "citar (c # d # cs) @ resto = escapar c @ citar (d # cs) @ resto"
      by (simp only: citar.simps if_False append_assoc)
    then show ?thesis
      using "3.IH"(2) [OF False, of "acc @ [c]"] by (simp only: analizar_escapar) simp
  qed
qed

lemma analizar_elemento:
  "analizar (MArr es # p, Cadena False []) (citar s @ 0x22 # resto)
     = analizar (MArr (es @ [JStr s]) # p, Separador) resto"
  by (simp add: analizar_citar)

lemma analizar_resto_de_lista:
  "analizar ([MArr es], Separador) (concat (map (\<lambda>x. 0x2C # QuoteJSONString x) xs) @ [0x5D])
     = Inr (JArr (es @ map JStr xs))"
proof (induction xs arbitrary: es)
  case Nil
  show ?case by (simp add: espacio_def)
next
  case (Cons x xs)
  show ?case
    using Cons.IH [of "es @ [JStr x]"]
    by (simp add: espacio_def abrir_valor_def QuoteJSONString_def analizar_elemento)
qed

lemma js_join_concat:
  "js_join sep (x # xs) = x @ concat (map (\<lambda>y. sep @ y) xs)"
  by (induction xs arbitrary: x) simp_all

lemma JSON_stringify_lista:
  "JSON_stringify (JArr (map JStr xs)) \<noteq> []"
  by simp

lemma JSON_parse_stringify_lista:
  "JSON_parse (JSON_stringify (JArr (map JStr xs))) = Inr (JArr (map JStr xs))"
proof (cases xs)
  case Nil
  then show ?thesis
    by (simp add: JSON_parse_def espacio_def abrir_valor_def)
next
  case (Cons x ys)
  have "JSON_stringify (JArr (map JStr xs))
          = 0x5B # 0x22 # citar x @ 0x22 # concat (map (\<lambda>y. 0x2C # QuoteJSONString y) ys) @ [0x5D]"
    by (simp add: Cons js_join_concat QuoteJSONString_def comp_def)
  then show ?thesis
    using analizar_resto_de_lista [of "[JStr x]" ys]
    by (simp add: JSON_parse_def espacio_def abrir_valor_def analizar_elemento Cons)
qed

section \<open>Statuses computed from a stored list\<close>

lemma aprobado_no_es_bloqueado: "aprobado \<noteq> bloqueado"
  by (simp add: aprobado_def bloqueado_def js_def)

lemma js_includes_lista: "js_includes (JArr (map JStr xs)) x = Inr (x \<in> set xs)"
  by (auto simp: image_iff)

lemma every_lista:
  "every (js_includes (JArr (map JStr xs))) rs = Inr (\<forall>r\<in>set rs. r \<in> set xs)"
  by (induction rs) (simp_all add: js_includes_lista del: js_includes.simps)

lemma filter_js_lista:
  "filter_js (\<lambda>r. map_sum id Not (js_includes (JArr (map JStr xs)) r)) rs
     = Inr (filter (\<lambda>r. r \<notin> set xs) rs)"
  by (induction rs) (simp_all add: js_includes_lista del: js_includes.simps)

lemma classList_add_set: "set (classList_add c cl) = insert c (set cl)"
  by (auto simp: classList_add_def)

lemma classList_remove_set: "set (classList_remove c cl) = set cl - {c}"
  by (auto simp: classList_remove_def)

lemma actualizarRamo_lista_ok: "fst (actualizarRamo (JArr (map JStr xs)) r) = None"
  by (simp add: actualizarRamo_def Let_def js_includes_lista every_lista split: bool.split
        del: js_includes.simps)

lemma actualizarRamo_ramoId: "ramoId (snd (actualizarRamo a r)) = ramoId r"
  by (simp add: actualizarRamo_def Let_def split: sum.split bool.split)

lemma actualizarRamo_dataset:
  "dataset_requisitos (snd (actualizarRamo a r)) = dataset_requisitos r"
  by (simp add: actualizarRamo_def Let_def split: sum.split bool.split)

lemma estado_actualizarRamo:
  "estado (snd (actualizarRamo (JArr (map JStr xs)) r)) =
     (if ramoId r \<in> set xs then Completed
      else if \<exists>q\<in>set (lista_requisitos r). q \<notin> set xs then Locked
      else Available)"
  using aprobado_no_es_bloqueado
  by (auto simp: actualizarRamo_def Let_def js_includes_lista every_lista estado_def
        classList_add_set classList_remove_set simp del: js_includes.simps)

lemma forEach_sin_error:
  "(\<And>x. fst (f x) = None) \<Longrightarrow> forEach f xs = (None, map (\<lambda>x. snd (f x)) xs)"
proof (induction xs)
  case Nil
  show ?case by simp
next
  case (Cons x xs)
  obtain y where "f x = (None, y)"
    using Cons.prems [of x] by (cases "f x") simp
  then show ?case
    using Cons by simp
qed

lemma actualizarEstadoVisual_lista:
  assumes "cargarRamosAprobados s = Inr (JArr (map JStr xs))"
  shows "actualizarEstadoVisual s =
           (None, s\<lparr>ramos := map (\<lambda>r. snd (actualizarRamo (JArr (map JStr xs)) r)) (ramos s)\<rparr>)"
  using assms by (simp add: actualizarEstadoVisual_def forEach_sin_error actualizarRamo_lista_ok)

section \<open>What one run of the handlers changes\<close>

lemma cargar_solo_localStorage:
  "localStorage s' = localStorage s \<Longrightarrow> cargarRamosAprobados s' = cargarRamosAprobados s"
  by (simp add: cargarRamosAprobados_def)

lemma cargar_guardar_lista:
  "cargarRamosAprobados (guardarRamosAprobados (JArr (map JStr xs)) s) = Inr (JArr (map JStr xs))"
  using JSON_stringify_lista [of xs] JSON_parse_stringify_lista [of xs]
  by (simp add: cargarRamosAprobados_def guardarRamosAprobados_def del: JSON_stringify.simps)

lemma localStorage_actualizarEstadoVisual:
  "localStorage (snd (actualizarEstadoVisual s)) = localStorage s"
  by (simp add: actualizarEstadoVisual_def split: sum.split prod.split)

lemma alertas_actualizarEstadoVisual:
  "alertas (snd (actualizarEstadoVisual s)) = alertas s"
  by (simp add: actualizarEstadoVisual_def split: sum.split prod.split)

lemma getElementById_actualizarEstadoVisual:
  "getElementById (snd (actualizarEstadoVisual s)) = getElementById s"
  by (simp add: actualizarEstadoVisual_def split: sum.split prod.split)

lemma lista_requisitos_dataset:
  "dataset_requisitos r' = dataset_requisitos r \<Longrightarrow> lista_requisitos r' = lista_requisitos r"
  by (simp add: lista_requisitos_def)

lemma actualizarRamo_lista:
  "snd (actualizarRamo (JArr (map JStr xs)) r) =
     r\<lparr>classList :=
        (if ramoId r \<in> set xs
         then classList_remove bloqueado (classList_add aprobado (classList r))
         else if \<exists>q\<in>set (lista_requisitos r). q \<notin> set xs
         then classList_add bloqueado (classList_remove aprobado (classList r))
         else classList_remove bloqueado (classList_remove aprobado (classList r)))\<rparr>"
  by (auto simp: actualizarRamo_def Let_def js_includes_lista every_lista
        simp del: js_includes.simps)

lemma lista_requisitos_classList [simp]:
  "lista_requisitos (r\<lparr>classList := cl\<rparr>) = lista_requisitos r"
  by (simp add: lista_requisitos_def)

lemma clases_aprobado:
  "a \<noteq> b \<Longrightarrow> classList_remove b (classList_add a (classList_remove b (classList_add a cl)))
     = classList_remove b (classList_add a cl)"
  by (auto simp: classList_add_def classList_remove_def)

lemma clases_bloqueado:
  "a \<noteq> b \<Longrightarrow> classList_add b (classList_remove a (classList_add b (classList_remove a cl)))
     = classList_add b (classList_remove a cl)"
  by (auto simp: classList_add_def classList_remove_def)

lemma clases_normal:
  "classList_remove b (classList_remove a (classList_remove b (classList_remove a cl)))
     = classList_remove b (classList_remove a cl)"
  by (induction cl) (simp_all add: classList_remove_def)

lemma actualizarRamo_idempotente:
  "snd (actualizarRamo (JArr (map JStr xs)) (snd (actualizarRamo (JArr (map JStr xs)) r)))
     = snd (actualizarRamo (JArr (map JStr xs)) r)"
  using aprobado_no_es_bloqueado
  by (simp add: actualizarRamo_lista clases_aprobado clases_bloqueado clases_normal)

lemma mostrada_despues_de_actualizar:
  assumes "cargarRamosAprobados s = Inr (JArr (map JStr xs))"
  shows "mostrada (snd (actualizarEstadoVisual s))"
proof -
  let ?f = "\<lambda>r. snd (actualizarRamo (JArr (map JStr xs)) r)"
  let ?s' = "s\<lparr>ramos := map ?f (ramos s)\<rparr>"
  have "cargarRamosAprobados ?s' = Inr (JArr (map JStr xs))"
    using assms cargar_solo_localStorage [of ?s' s] by simp
  then have "actualizarEstadoVisual ?s' = (None, ?s'\<lparr>ramos := map ?f (ramos ?s')\<rparr>)"
    by (rule actualizarEstadoVisual_lista)
  then have "actualizarEstadoVisual ?s' = (None, ?s')"
    by (simp add: actualizarRamo_idempotente)
  then show ?thesis
    by (simp add: mostrada_def actualizarEstadoVisual_lista [OF assms])
qed

lemma mostrada_ramo:
  assumes "mostrada s" and "cargarRamosAprobados s = Inr (JArr (map JStr xs))"
    and "i < length (ramos s)"
  shows "ramos s ! i = snd (actualizarRamo (JArr (map JStr xs)) (ramos s ! i))"
proof -
  have "s = s\<lparr>ramos := map (\<lambda>r. snd (actualizarRamo (JArr (map JStr xs)) r)) (ramos s)\<rparr>"
    using assms(1) actualizarEstadoVisual_lista [OF assms(2)] by (simp add: mostrada_def)
  then have "ramos s = map (\<lambda>r. snd (actualizarRamo (JArr (map JStr xs)) r)) (ramos s)"
    by (metis pagina.select_convs(1) pagina.surjective pagina.update_convs(1))
  then have "ramos s ! i = map (\<lambda>r. snd (actualizarRamo (JArr (map JStr xs)) r)) (ramos s) ! i"
    by simp
  then show ?thesis
    using assms(3) by simp
qed

lemma mostrada_estado:
  assumes "mostrada s" and "cargarRamosAprobados s = Inr (JArr (map JStr xs))"
    and "i < length (ramos s)"
  shows "estado (ramos s ! i) =
           (if ramoId (ramos s ! i) \<in> set xs then Completed
            else if \<exists>q\<in>set (lista_requisitos (ramos s ! i)). q \<notin> set xs then Locked
            else Available)"
proof -
  let ?r = "ramos s ! i"
  have "estado ?r = estado (snd (actualizarRamo (JArr (map JStr xs)) ?r))"
    using mostrada_ramo [OF assms] by simp
  then show ?thesis
    by (simp only: estado_actualizarRamo)
qed

lemma bloqueado_estado: "bloqueado \<in> set (classList r) \<longleftrightarrow> estado r = Locked"
  by (simp add: estado_def)

lemma actualizarEstadoVisual_alertas:
  "actualizarEstadoVisual (s\<lparr>alertas := a\<rparr>) =
     (fst (actualizarEstadoVisual s), (snd (actualizarEstadoVisual s))\<lparr>alertas := a\<rparr>)"
proof -
  have "cargarRamosAprobados (s\<lparr>alertas := a\<rparr>) = cargarRamosAprobados s"
    by (simp add: cargarRamosAprobados_def)
  then show ?thesis
    by (simp add: actualizarEstadoVisual_def split: sum.split prod.split)
qed

lemma mostrada_alertas: "mostrada s \<Longrightarrow> mostrada (s\<lparr>alertas := a\<rparr>)"
  by (simp add: mostrada_def actualizarEstadoVisual_alertas)

text \<open>What a click does on a ramo of class \<open>bloqueado\<close>, and on any other.\<close>

lemma clic_en_bloqueado:
  assumes "i < length (ramos s)" and "bloqueado \<in> set (classList (ramos s ! i))"
    and "lista_requisitos (ramos s ! i) \<noteq> []"
    and "cargarRamosAprobados s = Inr (JArr (map JStr xs))"
  shows "manejarClicRamo i s =
           (None, s\<lparr>alertas := alertas s @
              [mensaje (map (\<lambda>reqId. case getElementById s reqId of
                                        None \<Rightarrow> reqId | Some textContent \<Rightarrow> textContent)
                          (filter (\<lambda>r. r \<notin> set xs) (lista_requisitos (ramos s ! i))))]\<rparr>)"
proof -
  obtain a where a: "dataset_requisitos (ramos s ! i) = Some a"
    and l: "lista_requisitos (ramos s ! i) = js_split 0x2C a"
    using assms(3) by (auto simp: lista_requisitos_def split: option.splits if_splits)
  show ?thesis
    using assms(1,2,4)
    by (simp add: manejarClicRamo_def Let_def a l filter_js_lista del: js_includes.simps)
qed

lemma filter_JStr: "filter (\<lambda>v. v \<noteq> JStr x) (map JStr xs) = map JStr (filter (\<lambda>y. y \<noteq> x) xs)"
  by (induction xs) simp_all

lemma clic_en_libre:
  assumes "i < length (ramos s)" and "bloqueado \<notin> set (classList (ramos s ! i))"
    and "cargarRamosAprobados s = Inr (JArr (map JStr xs))"
  shows "manejarClicRamo i s =
           actualizarEstadoVisual
             (guardarRamosAprobados
                (JArr (map JStr (if ramoId (ramos s ! i) \<in> set xs
                                 then filter (\<lambda>y. y \<noteq> ramoId (ramos s ! i)) xs
                                 else xs @ [ramoId (ramos s ! i)]))) s)"
  using assms
  by (simp add: manejarClicRamo_def Let_def js_includes_lista filter_JStr del: js_includes.simps)

lemma localStorage_clic_en_bloqueado:
  assumes "i < length (ramos s)" and "bloqueado \<in> set (classList (ramos s ! i))"
  shows "localStorage (snd (manejarClicRamo i s)) = localStorage s"
  using assms
  by (simp add: manejarClicRamo_def Let_def split: option.split sum.split)

section \<open>The example pages evaluated\<close>

lemmas evaluar =
  js_def aprobado_def bloqueado_def LOCAL_STORAGE_KEY_def cargarRamosAprobados_def
  JSON_parse_def espacio_def abrir_valor_def digito_def lista_requisitos_def
  actualizarEstadoVisual_def actualizarRamo_def classList_add_def classList_remove_def
  mostrada_def estado_def

lemma cargar_pagina_ejemplo:
  "cargarRamosAprobados pagina_ejemplo = Inr (JArr (map JStr [js ''A'']))"
  by (simp add: pagina_ejemplo_def evaluar)

lemma mostrada_pagina_ejemplo: "mostrada pagina_ejemplo"
  by (simp add: pagina_ejemplo_def evaluar)

lemma cargar_pagina_inicial:
  "cargarRamosAprobados pagina_inicial = Inr (JArr (map JStr []))"
  by (simp add: pagina_inicial_def evaluar)

lemma mostrada_pagina_inicial: "mostrada pagina_inicial"
  by (simp add: pagina_inicial_def evaluar)

section \<open>The two outcomes of a click\<close>

lemma clic_libre_resultado:
  assumes "i < length (ramos s)" and "bloqueado \<notin> set (classList (ramos s ! i))"
    and "cargarRamosAprobados s = Inr (JArr (map JStr xs))"
    and "nuevos = (if ramoId (ramos s ! i) \<in> set xs
                   then filter (\<lambda>y. y \<noteq> ramoId (ramos s ! i)) xs
                   else xs @ [ramoId (ramos s ! i)])"
  shows "fst (manejarClicRamo i s) = None"
    and "localStorage (snd (manejarClicRamo i s))
           = (localStorage s)(LOCAL_STORAGE_KEY \<mapsto> JSON_stringify (JArr (map JStr nuevos)))"
    and "cargarRamosAprobados (snd (manejarClicRamo i s)) = Inr (JArr (map JStr nuevos))"
    and "mostrada (snd (manejarClicRamo i s))"
    and "ramos (snd (manejarClicRamo i s))
           = map (\<lambda>r. snd (actualizarRamo (JArr (map JStr nuevos)) r)) (ramos s)"
    and "alertas (snd (manejarClicRamo i s)) = alertas s"
proof -
  let ?g = "guardarRamosAprobados (JArr (map JStr nuevos)) s"
  have m: "manejarClicRamo i s = actualizarEstadoVisual ?g"
    using clic_en_libre [OF assms(1-3)] assms(4) by simp
  have c: "cargarRamosAprobados ?g = Inr (JArr (map JStr nuevos))"
    by (rule cargar_guardar_lista)
  show "fst (manejarClicRamo i s) = None"
    by (simp add: m actualizarEstadoVisual_lista [OF c])
  show "localStorage (snd (manejarClicRamo i s))
          = (localStorage s)(LOCAL_STORAGE_KEY \<mapsto> JSON_stringify (JArr (map JStr nuevos)))"
    by (simp add: m localStorage_actualizarEstadoVisual) (simp add: guardarRamosAprobados_def)
  show "cargarRamosAprobados (snd (manejarClicRamo i s)) = Inr (JArr (map JStr nuevos))"
    using c cargar_solo_localStorage [OF localStorage_actualizarEstadoVisual [of ?g]]
    by (simp add: m)
  show "mostrada (snd (manejarClicRamo i s))"
    using mostrada_despues_de_actualizar [OF c] by (simp add: m)
  show "ramos (snd (manejarClicRamo i s))
          = map (\<lambda>r. snd (actualizarRamo (JArr (map JStr nuevos)) r)) (ramos s)"
    by (simp add: m actualizarEstadoVisual_lista [OF c]) (simp add: guardarRamosAprobados_def)
  show "alertas (snd (manejarClicRamo i s)) = alertas s"
    by (simp add: m alertas_actualizarEstadoVisual) (simp add: guardarRamosAprobados_def)
qed

lemma mostrada_bloqueado:
  assumes "mostrada s" and "cargarRamosAprobados s = Inr (JArr (map JStr xs))"
    and "i < length (ramos s)"
  shows "bloqueado \<in> set (classList (ramos s ! i)) \<longleftrightarrow>
           ramoId (ramos s ! i) \<notin> set xs
           \<and> (\<exists>r\<in>set (lista_requisitos (ramos s ! i)). r \<notin> set xs)"
  using mostrada_estado [OF assms] by (simp add: bloqueado_estado)

lemma clic_bloqueado_resultado:
  assumes "mostrada s" and "cargarRamosAprobados s = Inr (JArr (map JStr xs))"
    and "i < length (ramos s)"
    and "ramoId (ramos s ! i) \<notin> set xs"
    and "\<exists>r\<in>set (lista_requisitos (ramos s ! i)). r \<notin> set xs"
  shows "manejarClicRamo i s =
           (None, s\<lparr>alertas := alertas s @
              [mensaje (map (\<lambda>reqId. case getElementById s reqId of
                                        None \<Rightarrow> reqId | Some textContent \<Rightarrow> textContent)
                          (filter (\<lambda>r. r \<notin> set xs) (lista_requisitos (ramos s ! i))))]\<rparr>)"
proof -
  have "bloqueado \<in> set (classList (ramos s ! i))"
    using mostrada_bloqueado [OF assms(1-3)] assms(4,5) by simp
  moreover have "lista_requisitos (ramos s ! i) \<noteq> []"
    using assms(5) by auto
  ultimately show ?thesis
    using clic_en_bloqueado [OF assms(3) _ _ assms(2)] by simp
qed

section \<open>Ramos of the example pages\<close>

lemma ramos_pagina_ejemplo:
  "ramos pagina_ejemplo =
     [\<lparr>ramoId = js ''A'', dataset_requisitos = None, classList = [js ''ramo'', aprobado]\<rparr>,
      \<lparr>ramoId = js ''B'', dataset_requisitos = Some (js ''A''), classList = [js ''ramo'']\<rparr>,
      \<lparr>ramoId = js ''C'', dataset_requisitos = Some (js ''A,B''),
       classList = [js ''ramo'', bloqueado]\<rparr>]"
  by (simp add: pagina_ejemplo_def)

lemma ramos_pagina_inicial:
  "ramos pagina_inicial =
     [\<lparr>ramoId = js ''A'', dataset_requisitos = None, classList = [js ''ramo'']\<rparr>,
      \<lparr>ramoId = js ''B'', dataset_requisitos = Some (js ''A''),
       classList = [js ''ramo'', bloqueado]\<rparr>,
      \<lparr>ramoId = js ''C'', dataset_requisitos = Some (js ''A,B''),
       classList = [js ''ramo'', bloqueado]\<rparr>]"
  by (simp add: pagina_inicial_def)

lemma ramo_1_de_pagina_ejemplo: "1 < length (ramos pagina_ejemplo)"
  by (simp add: ramos_pagina_ejemplo)

lemma ramo_2_de_pagina_ejemplo: "2 < length (ramos pagina_ejemplo)"
  by (simp add: ramos_pagina_ejemplo)

lemma ramo_2_de_pagina_inicial: "2 < length (ramos pagina_inicial)"
  by (simp add: ramos_pagina_inicial)

lemma libre_1_de_pagina_ejemplo:
  "\<not> (ramoId (ramos pagina_ejemplo ! 1) \<notin> set [js ''A'']
      \<and> (\<exists>r\<in>set (lista_requisitos (ramos pagina_ejemplo ! 1)). r \<notin> set [js ''A'']))"
  by (simp add: ramos_pagina_ejemplo lista_requisitos_def js_def)

lemma bloqueado_2_de_pagina_ejemplo:
  "ramoId (ramos pagina_ejemplo ! 2) \<notin> set [js ''A'']"
  "\<exists>r\<in>set (lista_requisitos (ramos pagina_ejemplo ! 2)). r \<notin> set [js ''A'']"
  by (simp_all add: ramos_pagina_ejemplo lista_requisitos_def js_def)

lemma bloqueado_2_de_pagina_inicial:
  "ramoId (ramos pagina_inicial ! 2) \<notin> set []"
  "\<exists>r\<in>set (lista_requisitos (ramos pagina_inicial ! 2)). r \<notin> set []"
  by (auto simp: ramos_pagina_inicial lista_requisitos_def js_def)

section \<open>Clicks on a page with an unknown requirement\<close>

lemma ramoId_ramos_actualizados:
  "map ramoId (map (\<lambda>r. snd (actualizarRamo a r)) rs) = map ramoId rs"
  by (simp add: actualizarRamo_ramoId)

lemma dataset_ramos_actualizados:
  "map dataset_requisitos (map (\<lambda>r. snd (actualizarRamo a r)) rs) = map dataset_requisitos rs"
  by (simp add: actualizarRamo_dataset)

text \<open>
  One click keeps what the theorem on unknown requirements assumes of the page.
\<close>

lemma clic_conserva_huerfano:
  assumes m: "mostrada s"
    and c: "cargarRamosAprobados s = Inr (JArr (map JStr xs))"
    and d: "distinct (map ramoId (ramos s))"
    and i: "i < length (ramos s)"
    and r: "r \<in> set (lista_requisitos (ramos s ! i))"
    and fuera: "r \<notin> ramoId ` set (ramos s)"
    and dentro: "set xs \<subseteq> ramoId ` set (ramos s)"
    and x: "ramoId (ramos s ! i) \<notin> set xs"
  shows "\<exists>ys. mostrada (snd (manejarClicRamo j s))
           \<and> cargarRamosAprobados (snd (manejarClicRamo j s)) = Inr (JArr (map JStr ys))
           \<and> map ramoId (ramos (snd (manejarClicRamo j s))) = map ramoId (ramos s)
           \<and> map dataset_requisitos (ramos (snd (manejarClicRamo j s)))
               = map dataset_requisitos (ramos s)
           \<and> set ys \<subseteq> ramoId ` set (ramos s)
           \<and> ramoId (ramos s ! i) \<notin> set ys"
proof (cases "j < length (ramos s)")
  case False
  then have "manejarClicRamo j s = (None, s)"
    by (simp add: manejarClicRamo_def)
  then show ?thesis
    using m c dentro x by auto
next
  case j: True
  have "r \<notin> set xs"
    using fuera dentro by auto
  then have bi: "bloqueado \<in> set (classList (ramos s ! i))"
    using mostrada_bloqueado [OF m c i] r x by auto
  show ?thesis
  proof (cases "bloqueado \<in> set (classList (ramos s ! j))")
    case True
    then have "ramoId (ramos s ! j) \<notin> set xs"
      and "\<exists>q\<in>set (lista_requisitos (ramos s ! j)). q \<notin> set xs"
      using mostrada_bloqueado [OF m c j] by simp_all
    then obtain a where "manejarClicRamo j s = (None, s\<lparr>alertas := a\<rparr>)"
      using clic_bloqueado_resultado [OF m c j] by blast
    moreover have "cargarRamosAprobados (s\<lparr>alertas := a\<rparr>) = Inr (JArr (map JStr xs))"
      using c by (simp add: cargarRamosAprobados_def)
    ultimately show ?thesis
      using mostrada_alertas [OF m, of a] dentro x by auto
  next
    case False
    let ?y = "ramoId (ramos s ! j)"
    let ?ys = "if ?y \<in> set xs then filter (\<lambda>z. z \<noteq> ?y) xs else xs @ [?y]"
    note res = clic_libre_resultado [OF j False c refl]
    have "j \<noteq> i"
      using bi False by auto
    then have "?y \<noteq> ramoId (ramos s ! i)"
      using d i j by (simp add: distinct_conv_nth)
    then have "ramoId (ramos s ! i) \<notin> set ?ys"
      using x by auto
    moreover have "set ?ys \<subseteq> ramoId ` set (ramos s)"
      using dentro j by auto
    moreover have "map ramoId (ramos (snd (manejarClicRamo j s))) = map ramoId (ramos s)"
      by (simp only: res(5) ramoId_ramos_actualizados)
    moreover have "map dataset_requisitos (ramos (snd (manejarClicRamo j s)))
                     = map dataset_requisitos (ramos s)"
      by (simp only: res(5) dataset_ramos_actualizados)
    ultimately show ?thesis
      using res(3,4) by blast
  qed
qed

lemma clics_conservan_huerfano:
  assumes "mostrada s"
    and "cargarRamosAprobados s = Inr (JArr (map JStr xs))"
    and "distinct (map ramoId (ramos s))"
    and "i < length (ramos s)"
    and "r \<in> set (lista_requisitos (ramos s ! i))"
    and "r \<notin> ramoId ` set (ramos s)"
    and "set xs \<subseteq> ramoId ` set (ramos s)"
    and "ramoId (ramos s ! i) \<notin> set xs"
  shows "i < length (ramos (clics indices s)) \<and> estado (ramos (clics indices s) ! i) = Locked"
  using assms
proof (induction indices arbitrary: s xs)
  case Nil
  have "r \<notin> set xs"
    using Nil.prems(6,7) by auto
  then show ?case
    using mostrada_estado [OF Nil.prems(1,2,4)] Nil.prems(4,5,8) by auto
next
  case (Cons j indices)
  let ?s' = "snd (manejarClicRamo j s)"
  obtain ys where ys: "mostrada ?s'" "cargarRamosAprobados ?s' = Inr (JArr (map JStr ys))"
    "map ramoId (ramos ?s') = map ramoId (ramos s)"
    "map dataset_requisitos (ramos ?s') = map dataset_requisitos (ramos s)"
    "set ys \<subseteq> ramoId ` set (ramos s)" "ramoId (ramos s ! i) \<notin> set ys"
    using clic_conserva_huerfano [OF Cons.prems, of j] by blast
  have largo: "length (ramos ?s') = length (ramos s)"
    using ys(3) by (metis length_map)
  have ids: "ramoId ` set (ramos ?s') = ramoId ` set (ramos s)"
    using ys(3) by (metis set_map)
  have idi: "ramoId (ramos ?s' ! i) = ramoId (ramos s ! i)"
    using ys(3) Cons.prems(4) largo by (metis nth_map)
  have "dataset_requisitos (ramos ?s' ! i) = dataset_requisitos (ramos s ! i)"
    using ys(4) Cons.prems(4) largo by (metis nth_map)
  then have reqs: "lista_requisitos (ramos ?s' ! i) = lista_requisitos (ramos s ! i)"
    by (rule lista_requisitos_dataset)
  have "i < length (ramos (clics indices ?s')) \<and> estado (ramos (clics indices ?s') ! i) = Locked"
  proof (rule Cons.IH [OF ys(1,2)])
    show "distinct (map ramoId (ramos ?s'))"
      using Cons.prems(3) ys(3) by simp
    show "i < length (ramos ?s')"
      using Cons.prems(4) largo by simp
    show "r \<in> set (lista_requisitos (ramos ?s' ! i))"
      using Cons.prems(5) reqs by simp
    show "r \<notin> ramoId ` set (ramos ?s')"
      using Cons.prems(6) ids by simp
    show "set ys \<subseteq> ramoId ` set (ramos ?s')"
      using ys(5) ids by simp
    show "ramoId (ramos ?s' ! i) \<notin> set ys"
      using ys(6) idi by simp
  qed
  then show ?case
    by simp
qed

lemma cargar_pagina_huerfana:
  "cargarRamosAprobados pagina_huerfana = Inr (JArr (map JStr []))"
  by (simp add: pagina_huerfana_def evaluar)

lemma mostrada_pagina_huerfana: "mostrada pagina_huerfana"
  by (simp add: pagina_huerfana_def evaluar)

lemma ramos_pagina_huerfana:
  "ramos pagina_huerfana =
     [\<lparr>ramoId = js ''X'', dataset_requisitos = Some (js ''Z''),
       classList = [js ''ramo'', bloqueado]\<rparr>]"
  by (simp add: pagina_huerfana_def)

section \<open>The page at every click\<close>

text \<open>
  A run of the program: \<open>actualizarEstadoVisual\<close> once, then clicks. When the text stored
  at start is a list of strings, or nothing is stored, the page shows the statuses of
  the stored list at every click, and a list of strings is stored.
\<close>

lemma clic_conserva_mostrada:
  assumes "mostrada s" and "cargarRamosAprobados s = Inr (JArr (map JStr xs))"
  shows "\<exists>ys. mostrada (snd (manejarClicRamo j s))
           \<and> cargarRamosAprobados (snd (manejarClicRamo j s)) = Inr (JArr (map JStr ys))"
proof (cases "j < length (ramos s)")
  case False
  then have "manejarClicRamo j s = (None, s)"
    by (simp add: manejarClicRamo_def)
  then show ?thesis
    using assms by auto
next
  case j: True
  show ?thesis
  proof (cases "bloqueado \<in> set (classList (ramos s ! j))")
    case True
    then have "ramoId (ramos s ! j) \<notin> set xs"
      and "\<exists>q\<in>set (lista_requisitos (ramos s ! j)). q \<notin> set xs"
      using mostrada_bloqueado [OF assms j] by simp_all
    then obtain a where "manejarClicRamo j s = (None, s\<lparr>alertas := a\<rparr>)"
      using clic_bloqueado_resultado [OF assms j] by blast
    moreover have "cargarRamosAprobados (s\<lparr>alertas := a\<rparr>) = Inr (JArr (map JStr xs))"
      using assms(2) by (simp add: cargarRamosAprobados_def)
    ultimately show ?thesis
      using mostrada_alertas [OF assms(1), of a] by auto
  next
    case False
    show ?thesis
      using clic_libre_resultado(3,4) [OF j False assms(2) refl] by blast
  qed
qed

lemma clics_conservan_mostrada:
  assumes "mostrada s" and "cargarRamosAprobados s = Inr (JArr (map JStr xs))"
  shows "\<exists>ys. mostrada (clics indices s)
           \<and> cargarRamosAprobados (clics indices s) = Inr (JArr (map JStr ys))"
  using assms
proof (induction indices arbitrary: s xs)
  case Nil
  then show ?case by auto
next
  case (Cons j indices)
  obtain ys where "mostrada (snd (manejarClicRamo j s))"
    and "cargarRamosAprobados (snd (manejarClicRamo j s)) = Inr (JArr (map JStr ys))"
    using clic_conserva_mostrada [OF Cons.prems] by blast
  then show ?case
    using Cons.IH by simp
qed

lemma siempre_mostrada:
  assumes "cargarRamosAprobados s = Inr (JArr (map JStr xs))"
  shows "\<exists>ys. mostrada (clics indices (snd (actualizarEstadoVisual s)))
           \<and> cargarRamosAprobados (clics indices (snd (actualizarEstadoVisual s)))
               = Inr (JArr (map JStr ys))"
proof -
  have "cargarRamosAprobados (snd (actualizarEstadoVisual s)) = Inr (JArr (map JStr xs))"
    using assms cargar_solo_localStorage [OF localStorage_actualizarEstadoVisual [of s]]
    by simp
  then show ?thesis
    using clics_conservan_mostrada [OF mostrada_despues_de_actualizar [OF assms]] by blast
qed

section \<open>The claims\<close>

subsection \<open>Statuses after \<open>actualizarEstadoVisual\<close>\<close>

text \<open>
  Claim C1. On a page whose stored list is \<open>completados\<close>, \<open>actualizarEstadoVisual\<close>
  succeeds and leaves a ramo Locked exactly when its identifier is not in the list and
  some requirement of it is not in the list; a ramo whose identifier is in the list is
  Completed, and any other is Available. This holds for every ramo, with requirements
  or without.
\<close>

theorem estados_de_actualizarEstadoVisual:
  assumes "cargarRamosAprobados s = Inr (JArr (map JStr completados))"
    and "i < length (ramos s)"
  shows "\<exists>s'. actualizarEstadoVisual s = (None, s')
           \<and> length (ramos s') = length (ramos s)
           \<and> estado (ramos s' ! i) =
               (if ramoId (ramos s ! i) \<in> set completados then Completed
                else if \<exists>r\<in>set (lista_requisitos (ramos s ! i)). r \<notin> set completados
                then Locked
                else Available)"
  using assms by (simp add: actualizarEstadoVisual_lista estado_actualizarRamo)

theorem estados_de_actualizarEstadoVisual_witness:
  "cargarRamosAprobados pagina_ejemplo = Inr (JArr (map JStr [js ''A'']))
   \<and> 2 < length (ramos pagina_ejemplo)
   \<and> lista_requisitos (ramos pagina_ejemplo ! 2) = [js ''A'', js ''B'']
   \<and> (\<exists>s'. actualizarEstadoVisual pagina_ejemplo = (None, s')
          \<and> length (ramos s') = 3 \<and> estado (ramos s' ! 2) = Locked)"
proof -
  have largo: "2 < length (ramos pagina_ejemplo)"
    by (simp add: pagina_ejemplo_def)
  have lista: "lista_requisitos (ramos pagina_ejemplo ! 2) = [js ''A'', js ''B'']"
    by (simp add: pagina_ejemplo_def evaluar)
  have "ramoId (ramos pagina_ejemplo ! 2) = js ''C''" and "length (ramos pagina_ejemplo) = 3"
    by (simp_all add: pagina_ejemplo_def)
  then show ?thesis
    using estados_de_actualizarEstadoVisual [OF cargar_pagina_ejemplo largo]
    by (simp add: cargar_pagina_ejemplo lista js_def)
qed

subsection \<open>A click on a ramo that is not locked\<close>

text \<open>
  Claim C2. On a page that shows the statuses of the stored list, a click on a ramo
  that is not Locked returns normally. Its identifier is filtered out of the list when
  it was there, every other entry kept in place, and appended when it was not. When
  the handler returns, \<open>localStorage\<close> holds the text of the whole new list, loading
  gives the new list, and the page shows its statuses.
\<close>

theorem clic_alterna_y_guarda:
  assumes "mostrada s"
    and "cargarRamosAprobados s = Inr (JArr (map JStr completados))"
    and "i < length (ramos s)"
    and "\<not> (ramoId (ramos s ! i) \<notin> set completados
            \<and> (\<exists>r\<in>set (lista_requisitos (ramos s ! i)). r \<notin> set completados))"
  shows "let x = ramoId (ramos s ! i);
             nuevos = (if x \<in> set completados then filter (\<lambda>y. y \<noteq> x) completados
                       else completados @ [x]);
             s' = snd (manejarClicRamo i s)
         in fst (manejarClicRamo i s) = None
            \<and> set nuevos = (if x \<in> set completados then set completados - {x}
                             else insert x (set completados))
            \<and> localStorage s' =
                (localStorage s)(LOCAL_STORAGE_KEY \<mapsto> JSON_stringify (JArr (map JStr nuevos)))
            \<and> cargarRamosAprobados s' = Inr (JArr (map JStr nuevos))
            \<and> mostrada s'"
proof -
  have libre: "bloqueado \<notin> set (classList (ramos s ! i))"
    using mostrada_bloqueado [OF assms(1-3)] assms(4) by simp
  show ?thesis
    using clic_libre_resultado [OF assms(3) libre assms(2) refl]
    by (auto simp: Let_def)
qed

theorem clic_alterna_y_guarda_witness:
  \<open>mostrada pagina_ejemplo
   \<and> cargarRamosAprobados pagina_ejemplo = Inr (JArr (map JStr [js ''A'']))
   \<and> 1 < length (ramos pagina_ejemplo)
   \<and> \<not> (ramoId (ramos pagina_ejemplo ! 1) \<notin> set [js ''A'']
        \<and> (\<exists>r\<in>set (lista_requisitos (ramos pagina_ejemplo ! 1)). r \<notin> set [js ''A'']))
   \<and> fst (manejarClicRamo 1 pagina_ejemplo) = None
   \<and> localStorage (snd (manejarClicRamo 1 pagina_ejemplo)) LOCAL_STORAGE_KEY
        = Some (js ''["A","B"]'')
   \<and> cargarRamosAprobados (snd (manejarClicRamo 1 pagina_ejemplo))
        = Inr (JArr (map JStr [js ''A'', js ''B'']))\<close>
proof -
  have texto: \<open>JSON_stringify (JArr (map JStr [js ''A'', js ''B''])) = js ''["A","B"]''\<close>
    by (simp add: js_def QuoteJSONString_def escapar_def subrogado_alto_def subrogado_bajo_def)
  show ?thesis
    using clic_alterna_y_guarda [OF mostrada_pagina_ejemplo cargar_pagina_ejemplo
        ramo_1_de_pagina_ejemplo libre_1_de_pagina_ejemplo]
      mostrada_pagina_ejemplo cargar_pagina_ejemplo libre_1_de_pagina_ejemplo texto
      ramo_1_de_pagina_ejemplo
    by (simp add: Let_def ramos_pagina_ejemplo js_def del: JSON_stringify.simps)
qed

subsection \<open>A click on a locked ramo\<close>

text \<open>
  Claim C3. On a page that shows the statuses of the stored list, a click on a Locked
  ramo returns normally with one more alert and nothing else changed: \<open>localStorage\<close>
  is the same map, the ramos and their classes are the same, and the list loads as
  before. The handler keeps no list of its own between clicks.
\<close>

theorem clic_bloqueado_sin_efecto:
  assumes "mostrada s"
    and "cargarRamosAprobados s = Inr (JArr (map JStr completados))"
    and "i < length (ramos s)"
    and "ramoId (ramos s ! i) \<notin> set completados"
    and "\<exists>r\<in>set (lista_requisitos (ramos s ! i)). r \<notin> set completados"
  shows "fst (manejarClicRamo i s) = None
         \<and> localStorage (snd (manejarClicRamo i s)) = localStorage s
         \<and> ramos (snd (manejarClicRamo i s)) = ramos s
         \<and> cargarRamosAprobados (snd (manejarClicRamo i s)) = Inr (JArr (map JStr completados))
         \<and> length (alertas (snd (manejarClicRamo i s))) = Suc (length (alertas s))"
  using assms(2) by (simp add: clic_bloqueado_resultado [OF assms] cargarRamosAprobados_def)

theorem clic_bloqueado_sin_efecto_witness:
  "mostrada pagina_ejemplo
   \<and> cargarRamosAprobados pagina_ejemplo = Inr (JArr (map JStr [js ''A'']))
   \<and> 2 < length (ramos pagina_ejemplo)
   \<and> ramoId (ramos pagina_ejemplo ! 2) \<notin> set [js ''A'']
   \<and> (\<exists>r\<in>set (lista_requisitos (ramos pagina_ejemplo ! 2)). r \<notin> set [js ''A''])
   \<and> fst (manejarClicRamo 2 pagina_ejemplo) = None
   \<and> localStorage (snd (manejarClicRamo 2 pagina_ejemplo)) = localStorage pagina_ejemplo
   \<and> ramos (snd (manejarClicRamo 2 pagina_ejemplo)) = ramos pagina_ejemplo
   \<and> length (alertas (snd (manejarClicRamo 2 pagina_ejemplo))) = 1"
proof -
  have "alertas pagina_ejemplo = []"
    by (simp add: pagina_ejemplo_def)
  then show ?thesis
    using clic_bloqueado_sin_efecto [OF mostrada_pagina_ejemplo cargar_pagina_ejemplo
        ramo_2_de_pagina_ejemplo bloqueado_2_de_pagina_ejemplo]
      mostrada_pagina_ejemplo cargar_pagina_ejemplo ramo_2_de_pagina_ejemplo
      bloqueado_2_de_pagina_ejemplo
    by simp
qed

subsection \<open>Loading\<close>

text \<open>
  Claim C4 says that loading never fails and gives the empty list for malformed text.
  \<open>cargarRamosAprobados\<close> calls \<open>JSON.parse\<close> outside any \<open>try\<close>: with the text \<open>{\<close>
  stored it fails with \<open>SyntaxError\<close>.
\<close>

theorem cargar_corrupto_counterexample:
  "localStorage pagina_corrupta LOCAL_STORAGE_KEY = Some (js ''{'')
   \<and> JSON_parse (js ''{'') = Inl SyntaxError
   \<and> cargarRamosAprobados pagina_corrupta = Inl SyntaxError
   \<and> cargarRamosAprobados pagina_corrupta \<noteq> Inr (JArr [])"
  by (simp add: pagina_corrupta_def evaluar)

text \<open>
  Claim C4, as the function is written. \<open>cargarRamosAprobados\<close> gives the empty list when
  nothing is stored under the key or the stored text is empty. For any other text it
  gives what \<open>JSON.parse\<close> gives: a \<open>SyntaxError\<close> when the text is not JSON, and the
  parsed value as it is, list of identifiers or not, when it is.
\<close>

theorem cargar_sin_datos:
  "(localStorage s LOCAL_STORAGE_KEY = None \<or> localStorage s LOCAL_STORAGE_KEY = Some []
      \<longrightarrow> cargarRamosAprobados s = Inr (JArr []))
   \<and> (\<forall>texto. localStorage s LOCAL_STORAGE_KEY = Some texto \<and> texto \<noteq> []
      \<longrightarrow> cargarRamosAprobados s = JSON_parse texto)"
  by (auto simp: cargarRamosAprobados_def)

theorem cargar_sin_datos_witness:
  "localStorage pagina_inicial LOCAL_STORAGE_KEY = None
   \<and> cargarRamosAprobados pagina_inicial = Inr (JArr [])
   \<and> localStorage pagina_corrupta LOCAL_STORAGE_KEY = Some (js ''{'') \<and> js ''{'' \<noteq> []
   \<and> cargarRamosAprobados pagina_corrupta = JSON_parse (js ''{'')"
proof -
  have a: "localStorage pagina_inicial LOCAL_STORAGE_KEY = None"
    by (simp add: pagina_inicial_def)
  have b: "localStorage pagina_corrupta LOCAL_STORAGE_KEY = Some (js ''{'')" "js ''{'' \<noteq> []"
    by (simp_all add: pagina_corrupta_def js_def)
  show ?thesis
    using a b cargar_sin_datos [of pagina_inicial] cargar_sin_datos [of pagina_corrupta]
    by blast
qed

subsection \<open>One more completed identifier locks nothing\<close>

text \<open>
  Claim C5. If the status computed for a ramo from a list of completed identifiers is
  not Locked, that is Available or Completed, then the status computed for it from any
  list with the same identifiers and \<open>y\<close> is not Locked either.
\<close>

theorem agregar_no_bloquea:
  assumes "estado (snd (actualizarRamo (JArr (map JStr completados)) x)) \<noteq> Locked"
    and "set completados' = insert y (set completados)"
  shows "estado (snd (actualizarRamo (JArr (map JStr completados')) x)) \<noteq> Locked"
  using assms by (auto simp: estado_actualizarRamo split: if_splits)

theorem agregar_no_bloquea_witness:
  "estado (snd (actualizarRamo (JArr (map JStr [js ''A''])) (ramos pagina_ejemplo ! 1))) \<noteq> Locked
   \<and> set [js ''A'', js ''C''] = insert (js ''C'') (set [js ''A''])
   \<and> estado (snd (actualizarRamo (JArr (map JStr [js ''A'', js ''C'']))
                      (ramos pagina_ejemplo ! 1))) \<noteq> Locked"
proof -
  have a: "estado (snd (actualizarRamo (JArr (map JStr [js ''A''])) (ramos pagina_ejemplo ! 1)))
             \<noteq> Locked"
    by (simp add: pagina_ejemplo_def evaluar)
  have b: "set [js ''A'', js ''C''] = insert (js ''C'') (set [js ''A''])"
    by auto
  show ?thesis
    using a b agregar_no_bloquea [OF a b] by blast
qed

subsection \<open>Saving and loading\<close>

text \<open>
  Claim C6. What \<open>guardarRamosAprobados\<close> writes for a list of identifiers,
  \<open>cargarRamosAprobados\<close> reads back as the same list in the same order, hence as the
  same set. This holds for every list of strings, the empty list, the empty string
  and surrogates without partner included, and whatever was stored before.
\<close>

theorem guardar_y_cargar:
  "cargarRamosAprobados (guardarRamosAprobados (JArr (map JStr completados)) s)
     = Inr (JArr (map JStr completados))"
  by (rule cargar_guardar_lista)

subsection \<open>The alert of a locked ramo\<close>

text \<open>
  Claim C7. A click on a Locked ramo shows one alert, and its text is the two lines
  of line 89, \<open>No puedes aprobar este ramo.\<close> and \<open>Requisitos pendientes:\<close>, each
  followed by a space and a line feed, then \<open>- \<close> and the labels joined by a line
  feed and \<open>- \<close>. The labels are those of the requirements of the ramo that are not
  in the stored list, all of them and no other, in the order of \<open>data-requisitos\<close>; the
  label of a requirement is the text of the element \<open>getElementById\<close> finds for it,
  and the requirement itself when there is no such element.
\<close>

theorem alerta_de_requisitos_pendientes:
  assumes "mostrada s"
    and "cargarRamosAprobados s = Inr (JArr (map JStr completados))"
    and "i < length (ramos s)"
    and "ramoId (ramos s ! i) \<notin> set completados"
    and "\<exists>r\<in>set (lista_requisitos (ramos s ! i)). r \<notin> set completados"
  shows "alertas (snd (manejarClicRamo i s)) =
           alertas s @
           [js ''No puedes aprobar este ramo. '' @ [0x0A]
            @ js ''Requisitos pendientes: '' @ [0x0A]
            @ js ''- ''
            @ js_join (0x0A # js ''- '')
                (map (\<lambda>reqId. case getElementById s reqId of
                                 None \<Rightarrow> reqId | Some textContent \<Rightarrow> textContent)
                   (filter (\<lambda>r. r \<notin> set completados) (lista_requisitos (ramos s ! i))))]"
  by (simp add: clic_bloqueado_resultado [OF assms] mensaje_def)

text \<open>
  On \<open>pagina_inicial\<close> a click on \<open>C\<close> names \<open>A\<close> and \<open>B\<close> by the texts of their
  elements. On \<open>pagina_huerfana\<close> a click on \<open>X\<close> names \<open>Z\<close>, which is no element of
  the page, by its identifier.
\<close>

theorem alerta_de_requisitos_pendientes_witness:
  "mostrada pagina_inicial
   \<and> cargarRamosAprobados pagina_inicial = Inr (JArr (map JStr []))
   \<and> 2 < length (ramos pagina_inicial)
   \<and> ramoId (ramos pagina_inicial ! 2) \<notin> set []
   \<and> (\<exists>r\<in>set (lista_requisitos (ramos pagina_inicial ! 2)). r \<notin> set [])
   \<and> alertas (snd (manejarClicRamo 2 pagina_inicial)) =
       [js ''No puedes aprobar este ramo. '' @ [0x0A]
        @ js ''Requisitos pendientes: '' @ [0x0A]
        @ js ''- Algebra'' @ [0x0A]
        @ js ''- Biologia'']
   \<and> mostrada pagina_huerfana
   \<and> cargarRamosAprobados pagina_huerfana = Inr (JArr (map JStr []))
   \<and> 0 < length (ramos pagina_huerfana)
   \<and> ramoId (ramos pagina_huerfana ! 0) \<notin> set []
   \<and> (\<exists>r\<in>set (lista_requisitos (ramos pagina_huerfana ! 0)). r \<notin> set [])
   \<and> getElementById pagina_huerfana (js ''Z'') = None
   \<and> alertas (snd (manejarClicRamo 0 pagina_huerfana)) =
       [js ''No puedes aprobar este ramo. '' @ [0x0A]
        @ js ''Requisitos pendientes: '' @ [0x0A]
        @ js ''- Z'']"
proof -
  have inicial: "alertas pagina_inicial = []"
    "getElementById pagina_inicial (js ''A'') = Some (js ''Algebra'')"
    "getElementById pagina_inicial (js ''B'') = Some (js ''Biologia'')"
    by (simp_all add: pagina_inicial_def js_def)
  have huerfana: "alertas pagina_huerfana = []"
    "getElementById pagina_huerfana (js ''Z'') = None"
    by (simp_all add: pagina_huerfana_def js_def)
  have ramo_0: "0 < length (ramos pagina_huerfana)"
    by (simp add: ramos_pagina_huerfana)
  have bloqueado_0: "ramoId (ramos pagina_huerfana ! 0) \<notin> set []"
    "\<exists>r\<in>set (lista_requisitos (ramos pagina_huerfana ! 0)). r \<notin> set []"
    by (simp_all add: ramos_pagina_huerfana lista_requisitos_def js_def)
  have "alertas (snd (manejarClicRamo 2 pagina_inicial)) =
          [js ''No puedes aprobar este ramo. '' @ [0x0A]
           @ js ''Requisitos pendientes: '' @ [0x0A]
           @ js ''- Algebra'' @ [0x0A]
           @ js ''- Biologia'']"
    using alerta_de_requisitos_pendientes [OF mostrada_pagina_inicial cargar_pagina_inicial
        ramo_2_de_pagina_inicial bloqueado_2_de_pagina_inicial] inicial
    by (simp add: ramos_pagina_inicial lista_requisitos_def js_def)
  moreover have "alertas (snd (manejarClicRamo 0 pagina_huerfana)) =
          [js ''No puedes aprobar este ramo. '' @ [0x0A]
           @ js ''Requisitos pendientes: '' @ [0x0A]
           @ js ''- Z'']"
    using alerta_de_requisitos_pendientes [OF mostrada_pagina_huerfana cargar_pagina_huerfana
        ramo_0 bloqueado_0] huerfana
    by (simp add: ramos_pagina_huerfana lista_requisitos_def js_def)
  ultimately show ?thesis
    using mostrada_pagina_inicial cargar_pagina_inicial ramo_2_de_pagina_inicial
      bloqueado_2_de_pagina_inicial mostrada_pagina_huerfana cargar_pagina_huerfana
      ramo_0 bloqueado_0 huerfana(2)
    by blast
qed

subsection \<open>A requirement that names no ramo\<close>

text \<open>
  Claim C8 says that a ramo with a requirement that names no ramo is Locked under every
  stored list of identifiers of ramos. The list may hold the identifier of the ramo
  itself, and \<open>actualizarEstadoVisual\<close> looks at the requirements only of a ramo that is
  not stored (line 42: a stored ramo is never locked): the ramo \<open>X\<close> that requires the
  unknown \<open>Z\<close> is Completed when \<open>["X"]\<close> is stored.
\<close>

theorem requisito_desconocido_counterexample:
  "js ''Z'' \<in> set (lista_requisitos (ramos pagina_huerfana_aprobada ! 0))
   \<and> js ''Z'' \<notin> ramoId ` set (ramos pagina_huerfana_aprobada)
   \<and> cargarRamosAprobados pagina_huerfana_aprobada = Inr (JArr (map JStr [js ''X'']))
   \<and> set [js ''X''] \<subseteq> ramoId ` set (ramos pagina_huerfana_aprobada)
   \<and> actualizarEstadoVisual pagina_huerfana_aprobada = (None, pagina_huerfana_aprobada)
   \<and> estado (ramos pagina_huerfana_aprobada ! 0) = Completed
   \<and> estado (ramos pagina_huerfana_aprobada ! 0) \<noteq> Locked"
  by (simp add: pagina_huerfana_aprobada_def evaluar)

text \<open>
  Claim C8, with the case of a stored ramo left out. On a page with distinct
  identifiers that shows the statuses of the stored list, let the list hold
  identifiers of ramos only, and let a ramo that is not in the list have a
  requirement \<open>r\<close> that no ramo is called. Then the ramo is Locked, and it is Locked
  after any sequence of clicks.
\<close>

theorem requisito_desconocido_bloquea:
  assumes "mostrada s"
    and "cargarRamosAprobados s = Inr (JArr (map JStr completados))"
    and "distinct (map ramoId (ramos s))"
    and "i < length (ramos s)"
    and "r \<in> set (lista_requisitos (ramos s ! i))"
    and "r \<notin> ramoId ` set (ramos s)"
    and "set completados \<subseteq> ramoId ` set (ramos s)"
    and "ramoId (ramos s ! i) \<notin> set completados"
  shows "estado (ramos s ! i) = Locked \<and> estado (ramos (clics indices s) ! i) = Locked"
  using clics_conservan_huerfano [OF assms, of "[]"] clics_conservan_huerfano [OF assms, of indices]
  by simp

theorem requisito_desconocido_bloquea_witness:
  "mostrada pagina_huerfana
   \<and> cargarRamosAprobados pagina_huerfana = Inr (JArr (map JStr []))
   \<and> distinct (map ramoId (ramos pagina_huerfana))
   \<and> 0 < length (ramos pagina_huerfana)
   \<and> js ''Z'' \<in> set (lista_requisitos (ramos pagina_huerfana ! 0))
   \<and> js ''Z'' \<notin> ramoId ` set (ramos pagina_huerfana)
   \<and> set [] \<subseteq> ramoId ` set (ramos pagina_huerfana)
   \<and> ramoId (ramos pagina_huerfana ! 0) \<notin> set []
   \<and> estado (ramos pagina_huerfana ! 0) = Locked
   \<and> estado (ramos (clics [0, 0] pagina_huerfana) ! 0) = Locked"
proof -
  have a: "distinct (map ramoId (ramos pagina_huerfana))"
    and b: "0 < length (ramos pagina_huerfana)"
    and c: "js ''Z'' \<in> set (lista_requisitos (ramos pagina_huerfana ! 0))"
    and d: "js ''Z'' \<notin> ramoId ` set (ramos pagina_huerfana)"
    and e: "set [] \<subseteq> ramoId ` set (ramos pagina_huerfana)"
    and f: "ramoId (ramos pagina_huerfana ! 0) \<notin> set []"
    by (simp_all add: ramos_pagina_huerfana lista_requisitos_def js_def)
  show ?thesis
    using requisito_desconocido_bloquea
      [OF mostrada_pagina_huerfana cargar_pagina_huerfana a b c d e f, of "[0, 0]"]
      mostrada_pagina_huerfana cargar_pagina_huerfana a b c d e f
    by blast
qed

subsection \<open>A click changes one identifier\<close>

text \<open>
  Claim C9. On a page that shows the statuses of the stored list, a click on a ramo
  that is not Locked leaves every identifier other than the one of the ramo in the
  list if it was there and out of it if it was not.
\<close>

theorem clic_no_toca_otros:
  assumes "mostrada s"
    and "cargarRamosAprobados s = Inr (JArr (map JStr completados))"
    and "i < length (ramos s)"
    and "\<not> (ramoId (ramos s ! i) \<notin> set completados
            \<and> (\<exists>r\<in>set (lista_requisitos (ramos s ! i)). r \<notin> set completados))"
    and "z \<noteq> ramoId (ramos s ! i)"
  shows "\<exists>nuevos. cargarRamosAprobados (snd (manejarClicRamo i s)) = Inr (JArr (map JStr nuevos))
           \<and> (z \<in> set nuevos \<longleftrightarrow> z \<in> set completados)"
proof -
  have libre: "bloqueado \<notin> set (classList (ramos s ! i))"
    using mostrada_bloqueado [OF assms(1-3)] assms(4) by simp
  let ?nuevos = "if ramoId (ramos s ! i) \<in> set completados
                 then filter (\<lambda>y. y \<noteq> ramoId (ramos s ! i)) completados
                 else completados @ [ramoId (ramos s ! i)]"
  have "cargarRamosAprobados (snd (manejarClicRamo i s)) = Inr (JArr (map JStr ?nuevos))"
    by (rule clic_libre_resultado(3) [OF assms(3) libre assms(2) refl])
  moreover have "z \<in> set ?nuevos \<longleftrightarrow> z \<in> set completados"
    using assms(5) by auto
  ultimately show ?thesis
    by blast
qed

theorem clic_no_toca_otros_witness:
  "mostrada pagina_ejemplo
   \<and> cargarRamosAprobados pagina_ejemplo = Inr (JArr (map JStr [js ''A'']))
   \<and> 1 < length (ramos pagina_ejemplo)
   \<and> \<not> (ramoId (ramos pagina_ejemplo ! 1) \<notin> set [js ''A'']
        \<and> (\<exists>r\<in>set (lista_requisitos (ramos pagina_ejemplo ! 1)). r \<notin> set [js ''A'']))
   \<and> js ''A'' \<noteq> ramoId (ramos pagina_ejemplo ! 1)
   \<and> (\<exists>nuevos. cargarRamosAprobados (snd (manejarClicRamo 1 pagina_ejemplo))
                   = Inr (JArr (map JStr nuevos))
          \<and> js ''A'' \<in> set nuevos)"
proof -
  have otro: "js ''A'' \<noteq> ramoId (ramos pagina_ejemplo ! 1)"
    by (simp add: ramos_pagina_ejemplo js_def)
  show ?thesis
    using clic_no_toca_otros [OF mostrada_pagina_ejemplo cargar_pagina_ejemplo
        ramo_1_de_pagina_ejemplo libre_1_de_pagina_ejemplo otro]
      mostrada_pagina_ejemplo cargar_pagina_ejemplo ramo_1_de_pagina_ejemplo
      libre_1_de_pagina_ejemplo otro
    by auto
qed

subsection \<open>No duplicates\<close>

text \<open>
  Claim C10. If the stored list has no identifier twice, the list stored after a click
  has none twice either, on any page and for a click anywhere: a locked ramo stores
  nothing, an identifier is appended only when it is absent, and the filter removes
  every occurrence.
\<close>

theorem clic_sin_duplicados:
  assumes "cargarRamosAprobados s = Inr (JArr (map JStr completados))"
    and "distinct completados"
  shows "\<exists>nuevos. cargarRamosAprobados (snd (manejarClicRamo i s)) = Inr (JArr (map JStr nuevos))
           \<and> distinct nuevos"
proof (cases "i < length (ramos s)")
  case False
  then have "manejarClicRamo i s = (None, s)"
    by (simp add: manejarClicRamo_def)
  then show ?thesis
    using assms by auto
next
  case dentro: True
  show ?thesis
  proof (cases "bloqueado \<in> set (classList (ramos s ! i))")
    case True
    then have "cargarRamosAprobados (snd (manejarClicRamo i s)) = cargarRamosAprobados s"
      using localStorage_clic_en_bloqueado [OF dentro] cargar_solo_localStorage by blast
    then show ?thesis
      using assms by auto
  next
    case False
    let ?nuevos = "if ramoId (ramos s ! i) \<in> set completados
                   then filter (\<lambda>y. y \<noteq> ramoId (ramos s ! i)) completados
                   else completados @ [ramoId (ramos s ! i)]"
    have "cargarRamosAprobados (snd (manejarClicRamo i s)) = Inr (JArr (map JStr ?nuevos))"
      by (rule clic_libre_resultado(3) [OF dentro False assms(1) refl])
    moreover have "distinct ?nuevos"
      using assms(2) by simp
    ultimately show ?thesis
      by blast
  qed
qed

theorem clic_sin_duplicados_witness:
  "cargarRamosAprobados pagina_ejemplo = Inr (JArr (map JStr [js ''A'']))
   \<and> distinct [js ''A'']
   \<and> (\<exists>nuevos. cargarRamosAprobados (snd (manejarClicRamo 1 pagina_ejemplo))
                   = Inr (JArr (map JStr nuevos))
          \<and> distinct nuevos)"
proof -
  have unico: "distinct [js ''A'']"
    by simp
  show ?thesis
    using clic_sin_duplicados [OF cargar_pagina_ejemplo unico, of 1] cargar_pagina_ejemplo
    by simp
qed

end
